theory Spec2Isabelle
  imports Main "HOL-Library.Word"
begin

unbundle bit_operations_syntax

section \<open>ESC/POS command encoder: data model\<close>

text \<open>
  The embedding follows \<^verbatim>\<open>escpos.go\<close>. A Go \<^verbatim>\<open>uint8\<close> is an \<open>8 word\<close>, a
  \<^verbatim>\<open>uint16\<close> a \<open>16 word\<close>, a \<^verbatim>\<open>uint32\<close> a \<open>32 word\<close>. A Go \<^verbatim>\<open>int\<close> (image
  dimensions, pixel channels, parsed parameters) is an \<open>int\<close>; the only place where its
  64-bit range matters is \<^verbatim>\<open>strconv.Atoi\<close>, where the range check is written out.
  A Go string is a sequence of bytes, as \<open>string\<close> is.
\<close>

type_synonym byte = "8 word"

text \<open>
  Go \<^verbatim>\<open>error\<close> values: the two errors of \<^verbatim>\<open>strconv.Atoi\<close> (with the offending
  text), an error built by \<^verbatim>\<open>fmt.Errorf\<close> (with its message), and an error handed over
  by an external collaborator, the destination or the image decoder (with its message).
\<close>

datatype error =
    ErrSyntax string
  | ErrRange string
  | Errorf string
  | External string

text \<open>Run-time panics of the Go code that the operations can reach.\<close>

datatype panic =
    SliceBoundsOutOfRange
  | IndexOutOfRange
  | MakesliceLenOutOfRange

text \<open>
  The package-level logger \<^verbatim>\<open>beelog\<close>. A call is recorded with its level, its format
  string and its arguments (rendering the format is the logger's business). A
  \<^verbatim>\<open>beelog.X(fmt.Sprintf(f, args))\<close> is recorded the same way as \<^verbatim>\<open>beelog.X(f, args)\<close>.
  No level terminates the process or the operation.
\<close>

datatype level = Debug | Warn | Critical

datatype arg =
    S string
  | I int
  | Bs "byte list"
  | M "string \<Rightarrow> string option"

type_synonym log_entry = "level \<times> string \<times> arg list"

text \<open>
  The struct \<^verbatim>\<open>Escpos\<close>. The destination \<^verbatim>\<open>dst io.Writer\<close> is an external object: it is
  modelled by the sequence of \<^verbatim>\<open>Write\<close> calls it has received (\<open>dst\<close>, oldest first) and
  by what its \<^verbatim>\<open>Write\<close> method returns for a call, given the calls before it
  (\<open>dst_Write\<close>). The output of the global logger is carried in the same record
  (\<open>beelog\<close>).
\<close>

record Escpos =
  dst :: "byte list list"
  dst_Write :: "byte list list \<Rightarrow> byte list \<Rightarrow> int \<times> error option"
  width :: byte
  height :: byte
  underline :: byte
  emphasize :: byte
  upsidedown :: byte
  rotate_toggle :: byte
  reverse :: byte
  Verbose :: bool
  beelog :: "log_entry list"

definition logf :: "level \<Rightarrow> string \<Rightarrow> arg list \<Rightarrow> Escpos \<Rightarrow> Escpos" where
  "logf lvl f args e = e\<lparr>beelog := beelog e @ [(lvl, f, args)]\<rparr>"

text \<open>Conversions between \<^verbatim>\<open>[]byte\<close> and \<^verbatim>\<open>string\<close>.\<close>

definition bytes_of_string :: "string \<Rightarrow> byte list" where
  "bytes_of_string s = map (\<lambda>c. of_nat (of_char c)) s"

definition string_of_bytes :: "byte list \<Rightarrow> string" where
  "string_of_bytes bs = map (\<lambda>b. char_of (unat b)) bs"

section \<open>Writing to the destination\<close>

text \<open>\<^verbatim>\<open>reset\<close>: the seven style fields go back to their defaults.\<close>

definition reset :: "Escpos \<Rightarrow> Escpos" where
  "reset e = e\<lparr>width := 1, height := 1, underline := 0, emphasize := 0,
               upsidedown := 0, rotate_toggle := 0, reverse := 0\<rparr>"

text \<open>
  \<^verbatim>\<open>New\<close>: a struct with the destination set and every other field zero, then
  \<^verbatim>\<open>reset\<close>. Nothing has been written or logged yet.
\<close>

definition New :: "(byte list list \<Rightarrow> byte list \<Rightarrow> int \<times> error option) \<Rightarrow> Escpos" where
  "New wr =
     reset \<lparr>dst = [], dst_Write = wr, width = 0, height = 0, underline = 0, emphasize = 0,
            upsidedown = 0, rotate_toggle = 0, reverse = 0, Verbose = False, beelog = []\<rparr>"

text \<open>
  \<^verbatim>\<open>WriteRaw\<close>: when \<open>data\<close> is not empty the destination's \<^verbatim>\<open>Write\<close> is called once and
  its two results are dropped; the function returns \<^verbatim>\<open>0, nil\<close> on every path.
\<close>

definition WriteRaw :: "byte list \<Rightarrow> Escpos \<Rightarrow> Escpos \<times> (int \<times> error option)" where
  "WriteRaw data e =
     (if length data > 0 then
        (let e1 = (if Verbose e
                   then logf Debug (''Writing %d bytes: %s'' @ [CHR 0x0A])
                          [I (int (length data)), Bs data] e
                   else e);
             discarded = dst_Write e1 (dst e1) data;
             e2 = e1\<lparr>dst := dst e1 @ [data]\<rparr>
         in (e2, (0, None)))
      else
        (let e1 = (if Verbose e
                   then logf Debug (''Wrote NO bytes'' @ [CHR 0x0A]) [] e
                   else e)
         in (e1, (0, None))))"

definition Write :: "string \<Rightarrow> Escpos \<Rightarrow> Escpos \<times> (int \<times> error option)" where
  "Write data e = WriteRaw (bytes_of_string data) e"

text \<open>
  Every caller inside the package drops what \<^verbatim>\<open>Write\<close> returns; \<open>emit\<close> is such a call.
\<close>

definition emit :: "string \<Rightarrow> Escpos \<Rightarrow> Escpos" where
  "emit data e = fst (Write data e)"

section \<open>Style opcodes\<close>

definition Init :: "Escpos \<Rightarrow> Escpos" where
  "Init e = emit (string_of_bytes [0x1B, 0x40]) (reset e)"

definition Cut :: "Escpos \<Rightarrow> Escpos" where
  "Cut e = emit (string_of_bytes [0x1D, 0x56, 0x41, 0x30]) e"

definition Linefeed :: "Escpos \<Rightarrow> Escpos" where
  "Linefeed e = emit (string_of_bytes [0x0A]) e"

text \<open>
  \<^verbatim>\<open>FormfeedN\<close>: the two range tests are written on a \<^verbatim>\<open>uint8\<close> as in the source; the
  opcode byte is \<^verbatim>\<open>'J'\<close>.
\<close>

definition FormfeedN :: "byte \<Rightarrow> Escpos \<Rightarrow> Escpos" where
  "FormfeedN n e =
     (let n1 = (if n < 0 then 0 else if n > 255 then 255 else n)
      in emit (string_of_bytes [0x1B, 0x4A, n1]) e)"

definition Formfeed :: "Escpos \<Rightarrow> Escpos" where
  "Formfeed e = FormfeedN 1 e"

text \<open>
  \<^verbatim>\<open>SetFont\<close>: \<^verbatim>\<open>fmt.Sprintf("\x1BM%c", f)\<close> with \<open>f\<close> in \<open>{0, 1, 2}\<close> renders \<open>f\<close> as
  the single byte \<open>f\<close>.
\<close>

definition SetFont :: "string \<Rightarrow> Escpos \<Rightarrow> Escpos" where
  "SetFont font e =
     (if font = ''A'' then emit (string_of_bytes [0x1B, 0x4D, 0]) e
      else if font = ''B'' then emit (string_of_bytes [0x1B, 0x4D, 1]) e
      else if font = ''C'' then emit (string_of_bytes [0x1B, 0x4D, 2]) e
      else emit (string_of_bytes [0x1B, 0x4D, 0])
             (logf Warn
                (''Invalid font: '' @ [CHR 0x27] @ ''%s'' @ [CHR 0x27] @ '', defaulting to '' @
                 [CHR 0x27] @ ''A'' @ [CHR 0x27])
                [S font] e))"

definition sendFontSize :: "Escpos \<Rightarrow> Escpos" where
  "sendFontSize e =
     emit (string_of_bytes [0x1D, 0x21, push_bit 4 (width e - 1) OR (height e - 1)]) e"

definition SetFontSize :: "byte \<Rightarrow> byte \<Rightarrow> Escpos \<Rightarrow> Escpos" where
  "SetFontSize w h e =
     (if w > 0 \<and> h > 0 \<and> w \<le> 8 \<and> h \<le> 8 then
        (let (h1, e1) =
               (if h > 5
                then (5, logf Warn
                  ''change height to 5, because height larger than 5 may cause some error'' [] e)
                else (h, e))
         in sendFontSize (e1\<lparr>width := w, height := h1\<rparr>))
      else logf Critical ''Invalid font size passed: %d x %d'' [I (uint w), I (uint h)] e)"

definition sendUnderline :: "Escpos \<Rightarrow> Escpos" where
  "sendUnderline e = emit (string_of_bytes [0x1B, 0x2D, underline e]) e"

definition sendEmphasize :: "Escpos \<Rightarrow> Escpos" where
  "sendEmphasize e = emit (string_of_bytes [0x1B, 0x45, emphasize e]) e"

definition sendUpsidedown :: "Escpos \<Rightarrow> Escpos" where
  "sendUpsidedown e = emit (string_of_bytes [0x1B, 0x7B, upsidedown e]) e"

definition sendRotate :: "Escpos \<Rightarrow> Escpos" where
  "sendRotate e = emit (string_of_bytes [0x1B, 0x56, rotate_toggle e]) e"

definition sendReverse :: "Escpos \<Rightarrow> Escpos" where
  "sendReverse e = emit (string_of_bytes [0x1D, 0x42, reverse e]) e"

definition sendMoveX :: "16 word \<Rightarrow> Escpos \<Rightarrow> Escpos" where
  "sendMoveX x e =
     emit (string_of_bytes [0x1B, 0x24, ucast (x mod 256), ucast (x div 256)]) e"

definition sendMoveY :: "16 word \<Rightarrow> Escpos \<Rightarrow> Escpos" where
  "sendMoveY y e =
     emit (string_of_bytes [0x1D, 0x24, ucast (y mod 256), ucast (y div 256)]) e"

definition SetUnderline :: "byte \<Rightarrow> Escpos \<Rightarrow> Escpos" where
  "SetUnderline v e = sendUnderline (e\<lparr>underline := v\<rparr>)"

definition SetEmphasize :: "byte \<Rightarrow> Escpos \<Rightarrow> Escpos" where
  "SetEmphasize u e = sendEmphasize (e\<lparr>emphasize := u\<rparr>)"

definition SetUpsidedown :: "byte \<Rightarrow> Escpos \<Rightarrow> Escpos" where
  "SetUpsidedown v e = sendUpsidedown (e\<lparr>upsidedown := v\<rparr>)"

definition SetRotate :: "byte \<Rightarrow> Escpos \<Rightarrow> Escpos" where
  "SetRotate v e = sendRotate (e\<lparr>rotate_toggle := v\<rparr>)"

definition SetReverse :: "byte \<Rightarrow> Escpos \<Rightarrow> Escpos" where
  "SetReverse v e = sendReverse (e\<lparr>reverse := v\<rparr>)"

text \<open>\<^verbatim>\<open>Pulse\<close>: the drawer-kick opcode \<^verbatim>\<open>ESC p 2\<close>.\<close>

definition Pulse :: "Escpos \<Rightarrow> Escpos" where
  "Pulse e = emit (string_of_bytes [0x1B, 0x70, 0x02]) e"

text \<open>
  \<^verbatim>\<open>SetAlign\<close>: an unknown name is logged and leaves the index at its initial \<open>0\<close>; the
  opcode is written on every path.
\<close>

definition SetAlign :: "string \<Rightarrow> Escpos \<Rightarrow> Escpos" where
  "SetAlign align e =
     (let (a, e1) =
            (if align = ''left'' then (0, e)
             else if align = ''center'' then (1, e)
             else if align = ''right'' then (2, e)
             else (0, logf Warn ''Invalid alignment: %s'' [S align] e))
      in emit (string_of_bytes [0x1B, 0x61, a]) e1)"

section \<open>Parameters\<close>

text \<open>
  \<^verbatim>\<open>strconv.Atoi\<close> of the standard library, base 10 into a 64-bit \<^verbatim>\<open>int\<close>: an optional
  sign, then at least one decimal digit and nothing else. On a syntax error the value is
  \<open>0\<close>; on a range error it is the nearest bound.
\<close>

definition is_digit :: "char \<Rightarrow> bool" where
  "is_digit c = (48 \<le> (of_char c :: nat) \<and> (of_char c :: nat) \<le> 57)"

fun digits_value :: "nat \<Rightarrow> string \<Rightarrow> nat" where
  "digits_value acc [] = acc"
| "digits_value acc (c # cs) = digits_value (acc * 10 + (of_char c - 48)) cs"

definition Atoi :: "string \<Rightarrow> int \<times> error option" where
  "Atoi s =
     (let neg = (s \<noteq> [] \<and> hd s = CHR ''-'');
          ds = (if s \<noteq> [] \<and> (hd s = CHR ''-'' \<or> hd s = CHR ''+'') then tl s else s)
      in if ds = [] \<or> \<not> list_all is_digit ds then (0, Some (ErrSyntax s))
         else
           (let n = int (digits_value 0 ds);
                v = (if neg then - n else n)
            in if v < - (2 ^ 63) then (- (2 ^ 63), Some (ErrRange s))
               else if v > 2 ^ 63 - 1 then (2 ^ 63 - 1, Some (ErrRange s))
               else (v, None)))"

text \<open>A style flag of \<^verbatim>\<open>Text\<close>: the key is present and its value is "true" or "1".\<close>

definition flag_on :: "(string \<Rightarrow> string option) \<Rightarrow> string \<Rightarrow> bool" where
  "flag_on params k =
     (case params k of Some v \<Rightarrow> v = ''true'' \<or> v = ''1'' | None \<Rightarrow> False)"

section \<open>Text\<close>

text \<open>
  The replacement table, in the order of the source text. \<^verbatim>\<open>textReplace\<close> ranges over a
  Go map, whose iteration order is not fixed: the order is the list \<open>ks\<close> it is given, one
  of the orderings of \<open>textReplaceMap\<close>.
\<close>

definition textReplaceMap :: "(string \<times> string) list" where
  "textReplaceMap =
     [(''&#9;'', [CHR 0x09]), (''&#x9;'', [CHR 0x09]),
      (''&#10;'', [CHR 0x0A]), (''&#xA;'', [CHR 0x0A]),
      (''&apos;'', [CHR 0x27]), (''&quot;'', [CHR 0x22]),
      (''&gt;'', ''>''), (''&lt;'', ''<''),
      (''&amp;'', ''&'')]"

text \<open>
  \<^verbatim>\<open>strings.Replace(s, old, new, -1)\<close> for a non-empty \<open>old\<close>: every non-overlapping
  occurrence, leftmost first. (The table has no empty key; for an empty \<open>old\<close> the
  text is returned as it is, which is not what Go does.)
\<close>

function Replace :: "string \<Rightarrow> string \<Rightarrow> string \<Rightarrow> string" where
  "Replace s old new =
     (if s = [] \<or> old = [] then s
      else if take (length old) s = old then new @ Replace (drop (length old) s) old new
      else hd s # Replace (tl s) old new)"
  by pat_completeness auto
termination
  by (relation "measure (\<lambda>(s, old, new). length s)") (auto simp: neq_Nil_conv)

definition textReplace :: "(string \<times> string) list \<Rightarrow> string \<Rightarrow> string" where
  "textReplace ks data = fold (\<lambda>(k, v) d. Replace d k v) ks data"

text \<open>
  \<^verbatim>\<open>strings.ToUpper\<close> as \<^verbatim>\<open>Text\<close> uses it, on a string of one byte: an ASCII letter is
  capitalised, another ASCII byte is kept, and a byte from \<open>0x80\<close> on (not valid UTF-8 by
  itself) becomes the replacement character U+FFFD.
\<close>

definition ToUpper :: "string \<Rightarrow> string" where
  "ToUpper s =
     concat (map (\<lambda>c. let n = (of_char c :: nat) in
                        if 97 \<le> n \<and> n \<le> 122 then [char_of (n - 32)]
                        else if n < 128 then [c]
                        else [CHR 0xEF, CHR 0xBF, CHR 0xBD]) s)"

text \<open>
  \<^verbatim>\<open>Text\<close> up to and including the font: alignment, emphasize, underline, reverse, rotate,
  then the font from \<^verbatim>\<open>font[5:6]\<close>. The slice expression panics unless the string has at
  least 6 bytes; the state reached so far is kept with the panic.
\<close>

definition Text_styles ::
  "(string \<Rightarrow> string option) \<Rightarrow> Escpos \<Rightarrow> (panic \<times> Escpos) + Escpos" where
  "Text_styles params e =
     (let e1 = (case params ''Align'' of Some al \<Rightarrow> SetAlign al e | None \<Rightarrow> e);
          e2 = (if flag_on params ''EM'' then SetEmphasize 1 e1 else e1);
          e3 = (if flag_on params ''UL'' then SetUnderline 1 e2 else e2);
          e4 = (if flag_on params ''Reverse'' then SetReverse 1 e3 else e3);
          e5 = (if flag_on params ''Rotate'' then SetRotate 1 e4 else e4)
      in case params ''Font'' of
           Some font \<Rightarrow>
             if length font < 6 then Inl (SliceBoundsOutOfRange, e5)
             else Inr (SetFont (ToUpper (take 1 (drop 5 font))) e5)
         | None \<Rightarrow> Inr e5)"

text \<open>The rest of \<^verbatim>\<open>Text\<close>: sizes, position, then the payload after replacement.\<close>

definition Text_sizes ::
  "(string \<times> string) list \<Rightarrow> (string \<Rightarrow> string option) \<Rightarrow> string \<Rightarrow> Escpos \<Rightarrow> Escpos" where
  "Text_sizes ks params data e =
     (let e1 = (if flag_on params ''DW'' then SetFontSize 2 (height e) e else e);
          e2 = (if flag_on params ''DH'' then SetFontSize (width e1) 2 e1 else e1);
          e3 = (case params ''Width'' of
                  Some ws \<Rightarrow>
                    (case Atoi ws of
                       (i, None) \<Rightarrow> SetFontSize (word_of_int i) (height e2) e2
                     | (i, Some err) \<Rightarrow> logf Critical ''Invalid font width: %s'' [S ws] e2)
                | None \<Rightarrow> e2);
          e4 = (case params ''Height'' of
                  Some hs \<Rightarrow>
                    (case Atoi hs of
                       (i, None) \<Rightarrow> SetFontSize (width e3) (word_of_int i) e3
                     | (i, Some err) \<Rightarrow> logf Critical ''Invalid font height: %s'' [S hs] e3)
                | None \<Rightarrow> e3);
          e5 = (case params ''X'' of
                  Some xs \<Rightarrow>
                    (case Atoi xs of
                       (i, None) \<Rightarrow> sendMoveX (word_of_int i) e4
                     | (i, Some err) \<Rightarrow> logf Critical ''Invalid x param %d'' [S xs] e4)
                | None \<Rightarrow> e4);
          e6 = (case params ''Y'' of
                  Some ys \<Rightarrow>
                    (case Atoi ys of
                       (i, None) \<Rightarrow> sendMoveY (word_of_int i) e5
                     | (i, Some err) \<Rightarrow> logf Critical ''Invalid y param %d'' [S ys] e5)
                | None \<Rightarrow> e5);
          data1 = textReplace ks data
      in if length data1 > 0 then emit data1 e6 else e6)"

definition Text ::
  "(string \<times> string) list \<Rightarrow> (string \<Rightarrow> string option) \<Rightarrow> string \<Rightarrow> Escpos
     \<Rightarrow> (panic \<times> Escpos) + Escpos" where
  "Text ks params data e =
     (case Text_styles params e of
        Inl pe \<Rightarrow> Inl pe
      | Inr e1 \<Rightarrow> Inr (Text_sizes ks params data e1))"

section \<open>Feed and cut\<close>

definition Feed :: "(string \<Rightarrow> string option) \<Rightarrow> Escpos \<Rightarrow> Escpos" where
  "Feed params e =
     (let e1 = (case params ''Line'' of
                  Some l \<Rightarrow>
                    (case Atoi l of
                       (i, None) \<Rightarrow> FormfeedN (word_of_int i) e
                     | (i, Some err) \<Rightarrow> logf Critical ''Invalid line number %s'' [S l] e)
                | None \<Rightarrow> e);
          e2 = (case params ''Unit'' of
                  Some u \<Rightarrow>
                    (case Atoi u of
                       (i, None) \<Rightarrow> sendMoveY (word_of_int i) e1
                     | (i, Some err) \<Rightarrow> logf Critical ''Invalid unit number %s'' [S u] e1)
                | None \<Rightarrow> e1);
          e3 = Linefeed e2;
          e4 = reset e3;
          e5 = sendEmphasize e4;
          e6 = sendRotate e5;
          e7 = sendReverse e6;
          e8 = sendUnderline e7;
          e9 = sendUpsidedown e8
      in sendFontSize e9)"

definition FeedAndCut :: "(string \<Rightarrow> string option) \<Rightarrow> Escpos \<Rightarrow> Escpos" where
  "FeedAndCut params e =
     (let e1 = (if params ''Type'' = Some ''feed'' then Formfeed e else e)
      in Cut e1)"

section \<open>Image pipeline\<close>

record pixel =
  R :: int
  G :: int
  B :: int
  A :: int

text \<open>
  What \<^verbatim>\<open>image.Decode\<close> hands back (an \<^verbatim>\<open>image.Image\<close> of the standard library), as far as
  \<^verbatim>\<open>getPixels\<close> reads it: the upper corner of the bounds and, for a point, the four
  results of \<^verbatim>\<open>At(x, y).RGBA()\<close>.
\<close>

record decoded =
  Max_X :: int
  Max_Y :: int
  At :: "int \<Rightarrow> int \<Rightarrow> 32 word \<times> 32 word \<times> 32 word \<times> 32 word"

text \<open>Go's integer division truncates towards zero.\<close>

definition go_div :: "int \<Rightarrow> int \<Rightarrow> int" where
  "go_div a b = sgn a * sgn b * (\<bar>a\<bar> div \<bar>b\<bar>)"

definition go_mod :: "int \<Rightarrow> int \<Rightarrow> int" where
  "go_mod a b = a - b * go_div a b"

definition closestNDivisibleBy8 :: "int \<Rightarrow> int" where
  "closestNDivisibleBy8 n = (let q = go_div n 8; n1 = q * 8 in n1)"

definition rgbaToPixel :: "32 word \<times> 32 word \<times> 32 word \<times> 32 word \<Rightarrow> pixel" where
  "rgbaToPixel c =
     (case c of (r, g, b, a) \<Rightarrow>
        \<lparr>R = uint (drop_bit 8 r), G = uint (drop_bit 8 g),
         B = uint (drop_bit 8 b), A = uint (drop_bit 8 a)\<rparr>)"

text \<open>
  \<^verbatim>\<open>getPixels\<close>. The base64 reader and \<^verbatim>\<open>image.Decode\<close> belong to the standard library:
  their composition is the parameter \<open>decode\<close>, which gives the decoded image or the
  error. The two loops run over \<open>0 \<le> y < height\<close> and \<open>0 \<le> x < width\<close>.
\<close>

definition getPixels ::
  "(string \<Rightarrow> error + decoded) \<Rightarrow> string \<Rightarrow> error + (int \<times> int \<times> pixel list list)" where
  "getPixels decode imgFile =
     (case decode imgFile of
        Inl err \<Rightarrow> Inl err
      | Inr img \<Rightarrow>
          (let w = Max_X img; h = Max_Y img;
               pixels = map (\<lambda>y. map (\<lambda>x. rgbaToPixel (At img (int x) (int y))) [0..<nat w])
                            [0..<nat h]
           in Inr (w, h, pixels)))"

text \<open>
  The loop shared by \<^verbatim>\<open>removeTransparency\<close> and \<^verbatim>\<open>makeGrayscale\<close>: the width is the
  length of row 0 (an index panic when there is no row), and every row is rewritten at
  the indices below that width (an index panic when the row is shorter).
\<close>

fun rows_update :: "(pixel \<Rightarrow> pixel) \<Rightarrow> nat \<Rightarrow> pixel list list \<Rightarrow> panic + pixel list list" where
  "rows_update f w [] = Inr []"
| "rows_update f w (row # rows) =
     (if length row < w then Inl IndexOutOfRange
      else (case rows_update f w rows of
              Inl p \<Rightarrow> Inl p
            | Inr rows1 \<Rightarrow> Inr ((map f (take w row) @ drop w row) # rows1)))"

definition each_pixel :: "(pixel \<Rightarrow> pixel) \<Rightarrow> pixel list list \<Rightarrow> panic + pixel list list" where
  "each_pixel f pixels =
     (case pixels of
        [] \<Rightarrow> Inl IndexOutOfRange
      | row0 # rest \<Rightarrow> rows_update f (length row0) pixels)"

definition flatten_alpha :: "pixel \<Rightarrow> pixel" where
  "flatten_alpha p =
     (let alpha = A p; invAlpha = 255 - alpha
      in \<lparr>R = go_div (alpha * R p + invAlpha * 255) 255,
          G = go_div (alpha * G p + invAlpha * 255) 255,
          B = go_div (alpha * B p + invAlpha * 255) 255,
          A = 255\<rparr>)"

definition removeTransparency :: "pixel list list \<Rightarrow> panic + pixel list list" where
  "removeTransparency pixels = each_pixel flatten_alpha pixels"

text \<open>
  The threshold of \<^verbatim>\<open>makeGrayscale\<close> is computed in \<^verbatim>\<open>float64\<close>:
  \<^verbatim>\<open>R*0.299 + G*0.587 + B*0.114 < 128\<close>. The exact value is \<open>s / 1000\<close> with
  \<open>s = 299 R + 587 G + 114 B\<close>. For channels in \<open>0..255\<close> and \<open>s \<noteq> 128000\<close> the exact
  value is at least \<open>0.001\<close> away from \<open>128\<close>, far more than the rounding of three
  products and two sums of this size, so the comparison is the one on \<open>s\<close>. Everywhere
  else the outcome depends on the rounding (and on whether the platform fuses the
  multiplications and additions): there it is the parameter \<open>fl\<close>.
\<close>

definition luminance_lt_128 :: "(pixel \<Rightarrow> bool) \<Rightarrow> pixel \<Rightarrow> bool" where
  "luminance_lt_128 fl p =
     (let s = 299 * R p + 587 * G p + 114 * B p
      in if 0 \<le> R p \<and> R p \<le> 255 \<and> 0 \<le> G p \<and> G p \<le> 255 \<and> 0 \<le> B p \<and> B p \<le> 255
            \<and> s \<noteq> 128000
         then s < 128000
         else fl p)"

definition binarize :: "(pixel \<Rightarrow> bool) \<Rightarrow> pixel \<Rightarrow> pixel" where
  "binarize fl p =
     (let v = (if luminance_lt_128 fl p then 0 else 255)
      in p\<lparr>R := v, G := v, B := v\<rparr>)"

definition makeGrayscale :: "(pixel \<Rightarrow> bool) \<Rightarrow> pixel list list \<Rightarrow> panic + pixel list list" where
  "makeGrayscale fl pixels = each_pixel (binarize fl) pixels"

definition getPixelValue :: "int \<Rightarrow> int \<Rightarrow> pixel list list \<Rightarrow> panic + int" where
  "getPixelValue x y pixels =
     (if y < 0 \<or> y \<ge> int (length pixels) then Inl IndexOutOfRange
      else (let row = pixels ! nat y
            in if x < 0 \<or> x \<ge> int (length row) then Inl IndexOutOfRange
               else (let px = row ! nat x in if R px > 0 then Inr 0 else Inr 1)))"

text \<open>Sequencing of computations that can panic.\<close>

definition and_then :: "panic + 'a \<Rightarrow> ('a \<Rightarrow> panic + 'b) \<Rightarrow> panic + 'b" where
  "and_then m f = (case m of Inl p \<Rightarrow> Inl p | Inr v \<Rightarrow> f v)"

text \<open>
  The eight pixel values of one byte are read from left to right (the first panic ends
  the evaluation), shifted and or-ed as \<^verbatim>\<open>int\<close>, then converted to a byte.
\<close>

definition pack8 :: "int \<Rightarrow> int \<Rightarrow> pixel list list \<Rightarrow> panic + byte" where
  "pack8 x y pixels =
     and_then (getPixelValue (x + 0) y pixels) (\<lambda>v0.
     and_then (getPixelValue (x + 1) y pixels) (\<lambda>v1.
     and_then (getPixelValue (x + 2) y pixels) (\<lambda>v2.
     and_then (getPixelValue (x + 3) y pixels) (\<lambda>v3.
     and_then (getPixelValue (x + 4) y pixels) (\<lambda>v4.
     and_then (getPixelValue (x + 5) y pixels) (\<lambda>v5.
     and_then (getPixelValue (x + 6) y pixels) (\<lambda>v6.
     and_then (getPixelValue (x + 7) y pixels) (\<lambda>v7.
       Inr (word_of_int
              (push_bit 7 v0 OR push_bit 6 v1 OR push_bit 5 v2 OR push_bit 4 v3 OR
               push_bit 3 v4 OR push_bit 2 v5 OR push_bit 1 v6 OR v7))))))))))"

text \<open>A loop body run over the values of the loop variable; a panic ends the loop.\<close>

fun for_each :: "('i \<Rightarrow> 's \<Rightarrow> panic + 's) \<Rightarrow> 'i list \<Rightarrow> 's \<Rightarrow> panic + 's" where
  "for_each body [] s = Inr s"
| "for_each body (i # is) s =
     (case body i s of Inl p \<Rightarrow> Inl p | Inr s1 \<Rightarrow> for_each body is s1)"

text \<open>
  \<^verbatim>\<open>rasterize\<close>. \<open>y\<close> takes the values \<open>0 \<le> y < printHeight\<close>, \<open>x\<close> the multiples of 8
  below \<open>printWidth\<close>. \<^verbatim>\<open>make\<close> panics on a negative length; the store into \<open>bytes\<close>
  panics outside the slice.
\<close>

definition store_byte :: "int \<Rightarrow> int \<Rightarrow> pixel list list \<Rightarrow> int \<Rightarrow> byte list \<Rightarrow> panic + byte list" where
  "store_byte printWidth y pixels x bytes =
     (let i = y * drop_bit 3 printWidth + drop_bit 3 x
      in case pack8 x y pixels of
           Inl p \<Rightarrow> Inl p
         | Inr b \<Rightarrow>
             if i < 0 \<or> i \<ge> int (length bytes) then Inl IndexOutOfRange
             else Inr (bytes[nat i := b]))"

definition rasterize ::
  "int \<Rightarrow> int \<Rightarrow> pixel list list \<Rightarrow> panic + (byte list \<times> error option)" where
  "rasterize printWidth printHeight pixels =
     (if go_mod printWidth 8 \<noteq> 0
      then Inr ([], Some (Errorf ''printWidth must be a multiple of 8''))
      else if go_mod printHeight 8 \<noteq> 0
      then Inr ([], Some (Errorf ''printHeight must be a multiple of 8''))
      else
        (let n = drop_bit 3 (printWidth * printHeight)
         in if n < 0 then Inl MakesliceLenOutOfRange
            else
              (case for_each
                      (\<lambda>y. for_each (store_byte printWidth y pixels)
                             (map (\<lambda>k. 8 * int k) [0..<nat ((printWidth + 7) div 8)]))
                      (map int [0..<nat printHeight])
                      (replicate (nat n) 0) of
                 Inl p \<Rightarrow> Inl p
               | Inr bytes \<Rightarrow> Inr (bytes, None))))"

text \<open>
  \<^verbatim>\<open>PrintImage\<close>: a decode error is returned before anything is written. Otherwise the
  frame is written with one \<^verbatim>\<open>WriteRaw\<close>: the raster opcode, \<open>width >> 3\<close> and \<open>height\<close> of
  the decoded image as two bytes each, then the packed bits. The error of \<^verbatim>\<open>rasterize\<close>
  is dropped.
\<close>

definition PrintImage ::
  "(string \<Rightarrow> error + decoded) \<Rightarrow> (pixel \<Rightarrow> bool) \<Rightarrow> string \<Rightarrow> Escpos
     \<Rightarrow> (panic \<times> Escpos) + (Escpos \<times> error option)" where
  "PrintImage decode fl imgFile e =
     (case getPixels decode imgFile of
        Inl err \<Rightarrow> Inr (e, Some err)
      | Inr (w, h, pixels) \<Rightarrow>
          (case removeTransparency pixels of
             Inl p \<Rightarrow> Inl (p, e)
           | Inr pixels1 \<Rightarrow>
               (case makeGrayscale fl pixels1 of
                  Inl p \<Rightarrow> Inl (p, e)
                | Inr pixels2 \<Rightarrow>
                    (let printWidth = closestNDivisibleBy8 w;
                         printHeight = closestNDivisibleBy8 h
                     in case rasterize printWidth printHeight pixels2 of
                          Inl p \<Rightarrow> Inl (p, e)
                        | Inr (bytes, dropped) \<Rightarrow>
                            (let imageHeader = [0x1D, 0x76, 0x30, 0x00];
                                 imageData = imageHeader @
                                   [word_of_int (drop_bit 3 w AND 0xFF),
                                    word_of_int (drop_bit 8 (drop_bit 3 w) AND 0xFF),
                                    word_of_int (h AND 0xFF),
                                    word_of_int (drop_bit 8 h AND 0xFF)];
                                 imageData1 = imageData @ bytes
                             in Inr (fst (WriteRaw imageData1 e), None))))))"

section \<open>The dispatcher\<close>

text \<open>
  \<^verbatim>\<open>Image\<close> (here \<open>Image_op\<close>, since HOL has a constant of that name): each of the
  four checks logs and goes on; the width and the height are only used by the debug
  line. What \<^verbatim>\<open>PrintImage\<close> returns is dropped.
\<close>

definition Image_op ::
  "(string \<Rightarrow> error + decoded) \<Rightarrow> (pixel \<Rightarrow> bool) \<Rightarrow> (string \<Rightarrow> string option) \<Rightarrow> string
     \<Rightarrow> Escpos \<Rightarrow> (panic \<times> Escpos) + Escpos" where
  "Image_op decode fl params data e =
     (let e1 = (case params ''Align'' of Some al \<Rightarrow> SetAlign al e | None \<Rightarrow> e);
          (widthStr, e2) =
             (case params ''Width'' of
                Some ws \<Rightarrow> (ws, e1)
              | None \<Rightarrow> ([], logf Critical ''No width specified on image'' [] e1));
          (heightStr, e3) =
             (case params ''Height'' of
                Some hs \<Rightarrow> (hs, e2)
              | None \<Rightarrow> ([], logf Critical ''No height specified on image'' [] e2));
          (wv, werr) = Atoi widthStr;
          e4 = (if werr \<noteq> None
                then logf Critical ''Invalid image width %s'' [S widthStr] e3 else e3);
          (hv, herr) = Atoi heightStr;
          e5 = (if herr \<noteq> None
                then logf Critical ''Invalid image height %s'' [S heightStr] e4 else e4);
          e6 = (if Verbose e5
                then logf Debug (''Image len:%d w: %d h: %d'' @ [CHR 0x0A])
                       [I (int (length data)), I wv, I hv] e5
                else e5)
      in case PrintImage decode fl data e6 of
           Inl pe \<Rightarrow> Inl pe
         | Inr (e7, dropped) \<Rightarrow> Inr e7)"

text \<open>
  \<^verbatim>\<open>WriteNode\<close>: a \<^verbatim>\<open>Name\<close> that is present and empty becomes "pulse"; a missing one
  stays the empty string, which no case of the switch matches.
\<close>

definition WriteNode ::
  "(string \<times> string) list \<Rightarrow> (string \<Rightarrow> error + decoded) \<Rightarrow> (pixel \<Rightarrow> bool)
     \<Rightarrow> (string \<Rightarrow> string option) \<Rightarrow> string \<Rightarrow> Escpos \<Rightarrow> (panic \<times> Escpos) + Escpos" where
  "WriteNode ks decode fl params data e =
     (let debugStr =
            (if data \<noteq> []
             then (let str = (if length data > 40 then take 40 data @ '' ...'' else data)
                   in '' => '' @ [CHR 0x27] @ str @ [CHR 0x27])
             else []);
          name = (case params ''Name'' of
                    Some n \<Rightarrow> if n = [] then ''pulse'' else n
                  | None \<Rightarrow> []);
          e1 = (if Verbose e
                then logf Debug (''Write: %s => %+v%s'' @ [CHR 0x0A])
                       [S name, M params, S debugStr] e
                else e)
      in if name = ''text'' then Text ks params data e1
         else if name = ''feed'' then Inr (Feed params e1)
         else if name = ''cut'' then Inr (FeedAndCut params e1)
         else if name = ''pulse'' then Inr (Pulse e1)
         else if name = ''image'' then Image_op decode fl params data e1
         else Inr e1)"

text \<open>
  The session as an operation leaves it, whether it returns or panics.
\<close>

definition state_of :: "(panic \<times> Escpos) + Escpos \<Rightarrow> Escpos" where
  "state_of r = (case r of Inl (p, e) \<Rightarrow> e | Inr e \<Rightarrow> e)"

section \<open>Collaborators used in the examples\<close>

text \<open>
  Two destinations: an in-memory buffer, whose \<^verbatim>\<open>Write\<close> accepts every byte, and a closed
  pipe, whose \<^verbatim>\<open>Write\<close> fails on every call.
\<close>

definition buffer_Write :: "byte list list \<Rightarrow> byte list \<Rightarrow> int \<times> error option" where
  "buffer_Write calls data = (int (length data), None)"

definition closed_Write :: "byte list list \<Rightarrow> byte list \<Rightarrow> int \<times> error option" where
  "closed_Write calls data = (0, Some (External ''io: read/write on closed pipe''))"

text \<open>
  Two decoders: one that rejects every payload, and one that knows a single payload and
  the image it stands for. \<open>tie_dark\<close> settles the floating-point comparison as "less
  than 128" wherever the model leaves it open.
\<close>

definition reject_all :: "string \<Rightarrow> error + decoded" where
  "reject_all s = Inl (External ''image: unknown format'')"

definition decode_only :: "string \<Rightarrow> decoded \<Rightarrow> string \<Rightarrow> error + decoded" where
  "decode_only payload img s =
     (if s = payload then Inr img else Inl (External ''image: unknown format''))"

definition tie_dark :: "pixel \<Rightarrow> bool" where
  "tie_dark p = True"

text \<open>An opaque image of one colour: \<^verbatim>\<open>RGBA()\<close> gives 16-bit channels.\<close>

definition plain_image :: "int \<Rightarrow> int \<Rightarrow> 32 word \<Rightarrow> decoded" where
  "plain_image w h v = \<lparr>Max_X = w, Max_Y = h, At = (\<lambda>x y. (v, v, v, 0xFFFF))\<rparr>"

text \<open>Two opaque pixels, as \<^verbatim>\<open>rgbaToPixel\<close> gives them: black and white.\<close>

definition black_px :: pixel where
  "black_px = \<lparr>R = 0, G = 0, B = 0, A = 255\<rparr>"

definition white_px :: pixel where
  "white_px = \<lparr>R = 255, G = 255, B = 255, A = 255\<rparr>"

section \<open>Basic facts about writing and logging\<close>

lemma byte_mod_256: "word_of_nat (unat (b :: byte) mod 256) = b"
proof -
  have "unat b < 256" using unsigned_less [of b, where ?'a = nat] by simp
  then show ?thesis by simp
qed

lemma bytes_of_string_of_bytes: "bytes_of_string (string_of_bytes bs) = bs"
  by (induction bs) (simp_all add: bytes_of_string_def string_of_bytes_def byte_mod_256)

lemma emit_bytes:
  "bs \<noteq> [] \<Longrightarrow> emit (string_of_bytes bs) e =
     (if Verbose e
      then logf Debug (''Writing %d bytes: %s'' @ [CHR 0x0A]) [I (int (length bs)), Bs bs] e
      else e)\<lparr>dst := dst e @ [bs]\<rparr>"
  by (simp add: emit_def Write_def WriteRaw_def bytes_of_string_of_bytes logf_def Let_def)

lemma dst_emit_bytes: "bs \<noteq> [] \<Longrightarrow> dst (emit (string_of_bytes bs) e) = dst e @ [bs]"
  by (simp add: emit_bytes logf_def)

lemma emit_fields:
  "width (emit s e) = width e" "height (emit s e) = height e"
  "underline (emit s e) = underline e" "emphasize (emit s e) = emphasize e"
  "upsidedown (emit s e) = upsidedown e" "rotate_toggle (emit s e) = rotate_toggle e"
  "reverse (emit s e) = reverse e" "Verbose (emit s e) = Verbose e"
  "dst_Write (emit s e) = dst_Write e"
  by (simp_all add: emit_def Write_def WriteRaw_def logf_def Let_def)

lemma logf_fields:
  "width (logf l f a e) = width e" "height (logf l f a e) = height e"
  "underline (logf l f a e) = underline e" "emphasize (logf l f a e) = emphasize e"
  "upsidedown (logf l f a e) = upsidedown e" "rotate_toggle (logf l f a e) = rotate_toggle e"
  "reverse (logf l f a e) = reverse e" "Verbose (logf l f a e) = Verbose e"
  "dst_Write (logf l f a e) = dst_Write e" "dst (logf l f a e) = dst e"
  "beelog (logf l f a e) = beelog e @ [(l, f, a)]"
  by (simp_all add: logf_def)

lemma beelog_emit: "\<exists>more. beelog (emit s e) = beelog e @ more"
  by (simp add: emit_def Write_def WriteRaw_def logf_def Let_def)

lemma reset_fields:
  "width (reset e) = 1" "height (reset e) = 1" "underline (reset e) = 0"
  "emphasize (reset e) = 0" "upsidedown (reset e) = 0" "rotate_toggle (reset e) = 0"
  "reverse (reset e) = 0" "dst (reset e) = dst e" "Verbose (reset e) = Verbose e"
  "beelog (reset e) = beelog e" "dst_Write (reset e) = dst_Write e"
  by (simp_all add: reset_def)

section \<open>Sink errors\<close>

text \<open>
  C2. An error returned by the destination's \<^verbatim>\<open>Write\<close> should reach the caller of the
  write. Evaluated on a destination that fails on every call: the destination answers
  the one-byte write with an error, and \<^verbatim>\<open>WriteRaw\<close> returns \<^verbatim>\<open>0, nil\<close>.
\<close>

theorem WriteRaw_drops_sink_error:
  "dst_Write (New closed_Write) (dst (New closed_Write)) [0x0A] =
     (0, Some (External ''io: read/write on closed pipe'')) \<and>
   snd (WriteRaw [0x0A] (New closed_Write)) = (0, None)"
  by (simp add: WriteRaw_def New_def reset_def closed_Write_def Let_def)

section \<open>Font size\<close>

text \<open>
  C4. For \<open>w\<close> and \<open>h\<close> in \<open>1..8\<close>, \<^verbatim>\<open>SetFontSize\<close> stores width \<open>w\<close> and height
  \<open>min h 5\<close> and writes the three bytes \<open>1D 21 n\<close>, where \<open>n\<close> is
  \<open>(stored width - 1) << 4 | (stored height - 1)\<close>. For \<open>w\<close> or \<open>h\<close> outside \<open>1..8\<close> it
  logs one Critical line, writes nothing and leaves width and height as they were.
\<close>

theorem SetFontSize_spec:
  "(1 \<le> w \<and> w \<le> 8 \<and> 1 \<le> h \<and> h \<le> 8 \<longrightarrow>
      width (SetFontSize w h e) = w \<and>
      height (SetFontSize w h e) = min h 5 \<and>
      dst (SetFontSize w h e) =
        dst e @ [[0x1D, 0x21,
                  push_bit 4 (width (SetFontSize w h e) - 1) OR
                  (height (SetFontSize w h e) - 1)]]) \<and>
   (\<not> (1 \<le> w \<and> w \<le> 8 \<and> 1 \<le> h \<and> h \<le> 8) \<longrightarrow>
      beelog (SetFontSize w h e) =
        beelog e @ [(Critical, ''Invalid font size passed: %d x %d'', [I (uint w), I (uint h)])] \<and>
      dst (SetFontSize w h e) = dst e \<and>
      width (SetFontSize w h e) = width e \<and>
      height (SetFontSize w h e) = height e)"
  by (auto simp: SetFontSize_def sendFontSize_def emit_fields logf_fields dst_emit_bytes
        word_le_nat_alt word_less_nat_alt min_def split: if_splits)

theorem SetFontSize_spec_witness:
  "((1 :: byte) \<le> 3 \<and> (3 :: byte) \<le> 8 \<and> (1 :: byte) \<le> 7 \<and> (7 :: byte) \<le> 8) \<and>
   width (SetFontSize 3 7 (New buffer_Write)) = 3 \<and>
   height (SetFontSize 3 7 (New buffer_Write)) = 5 \<and>
   dst (SetFontSize 3 7 (New buffer_Write)) = [[0x1D, 0x21, 0x24]] \<and>
   \<not> ((1 :: byte) \<le> 9 \<and> (9 :: byte) \<le> 8 \<and> (1 :: byte) \<le> 2 \<and> (2 :: byte) \<le> 8) \<and>
   beelog (SetFontSize 9 2 (New buffer_Write)) =
     [(Critical, ''Invalid font size passed: %d x %d'', [I 9, I 2])] \<and>
   dst (SetFontSize 9 2 (New buffer_Write)) = [] \<and>
   width (SetFontSize 9 2 (New buffer_Write)) = 1 \<and>
   height (SetFontSize 9 2 (New buffer_Write)) = 1"
  using SetFontSize_spec [of 3 7 "New buffer_Write"] SetFontSize_spec [of 9 2 "New buffer_Write"]
  by (simp add: New_def reset_def)

section \<open>Alignment\<close>

text \<open>
  C8. For an alignment name other than left, center and right, \<^verbatim>\<open>SetAlign\<close> logs a
  warning and still writes the three-byte alignment opcode, with index 0.
\<close>

theorem SetAlign_unknown:
  "align \<noteq> ''left'' \<Longrightarrow> align \<noteq> ''center'' \<Longrightarrow> align \<noteq> ''right'' \<Longrightarrow>
     dst (SetAlign align e) = dst e @ [[0x1B, 0x61, 0]] \<and>
     (\<exists>more. beelog (SetAlign align e) =
        beelog e @ (Warn, ''Invalid alignment: %s'', [S align]) # more)"
  using beelog_emit [of "string_of_bytes [0x1B, 0x61, 0]"
                        "logf Warn ''Invalid alignment: %s'' [S align] e"]
  by (auto simp: SetAlign_def dst_emit_bytes logf_fields)

theorem SetAlign_unknown_witness:
  "''bogus'' \<noteq> ''left'' \<and> ''bogus'' \<noteq> ''center'' \<and> ''bogus'' \<noteq> ''right'' \<and>
   dst (SetAlign ''bogus'' (New buffer_Write)) = [[0x1B, 0x61, 0]] \<and>
   beelog (SetAlign ''bogus'' (New buffer_Write)) =
     [(Warn, ''Invalid alignment: %s'', [S ''bogus''])]"
  using SetAlign_unknown [of "''bogus''" "New buffer_Write"]
  by (simp add: New_def reset_def SetAlign_def emit_bytes logf_def)

section \<open>Feed\<close>

lemma dst_FormfeedN: "dst (FormfeedN n e) = dst e @ [[0x1B, 0x4A, n]]"
proof -
  have "\<not> n > 255" using word_le_nat_alt [of n 255] unsigned_less [of n, where ?'a = nat]
    by (simp add: not_less)
  then show ?thesis by (simp add: FormfeedN_def dst_emit_bytes)
qed

lemma dst_sendMoveY:
  "dst (sendMoveY y e) = dst e @ [[0x1D, 0x24, ucast (y mod 256), ucast (y div 256)]]"
  by (simp add: sendMoveY_def dst_emit_bytes)

lemma dst_Linefeed: "dst (Linefeed e) = dst e @ [[0x0A]]"
  by (simp add: Linefeed_def dst_emit_bytes)

lemma Feed_resync:
  "dst (sendFontSize (sendUpsidedown (sendUnderline (sendReverse (sendRotate
             (sendEmphasize (reset (Linefeed e2))))))))
     = dst e2 @ [[0x0A], [0x1B, 0x45, 0], [0x1B, 0x56, 0], [0x1D, 0x42, 0],
                 [0x1B, 0x2D, 0], [0x1B, 0x7B, 0], [0x1D, 0x21, 0]]"
  by (simp add: sendFontSize_def sendUpsidedown_def sendUnderline_def sendReverse_def
        sendRotate_def sendEmphasize_def dst_emit_bytes emit_fields reset_fields dst_Linefeed)

lemma Feed_moves:
  "\<exists>pre. dst (case params ''Unit'' of
                  Some u \<Rightarrow>
                    (case Atoi u of
                       (i, None) \<Rightarrow> sendMoveY (word_of_int i) e1
                     | (i, Some err) \<Rightarrow> logf Critical ''Invalid unit number %s'' [S u] e1)
                | None \<Rightarrow> e1) = dst e1 @ pre"
  by (auto simp: dst_sendMoveY logf_fields split: option.splits prod.splits)

lemma Feed_lines:
  "\<exists>pre. dst (case params ''Line'' of
                  Some l \<Rightarrow>
                    (case Atoi l of
                       (i, None) \<Rightarrow> FormfeedN (word_of_int i) e
                     | (i, Some err) \<Rightarrow> logf Critical ''Invalid line number %s'' [S l] e)
                | None \<Rightarrow> e) = dst e @ pre"
  by (auto simp: dst_FormfeedN logf_fields split: option.splits prod.splits)

text \<open>
  C7. Whatever the session and the parameters, after \<^verbatim>\<open>Feed\<close> the seven style fields
  hold their defaults (width 1, height 1, every toggle 0), and the last writes are the
  line feed followed by the emphasize, rotate, reverse, underline, upside-down and
  font-size opcodes, each at its default value.
\<close>

theorem Feed_resets_and_resyncs:
  "width (Feed params e) = 1 \<and> height (Feed params e) = 1 \<and>
   underline (Feed params e) = 0 \<and> emphasize (Feed params e) = 0 \<and>
   upsidedown (Feed params e) = 0 \<and> rotate_toggle (Feed params e) = 0 \<and>
   reverse (Feed params e) = 0 \<and>
   (\<exists>pre. dst (Feed params e) =
      dst e @ pre @ [[0x0A], [0x1B, 0x45, 0], [0x1B, 0x56, 0], [0x1D, 0x42, 0],
                     [0x1B, 0x2D, 0], [0x1B, 0x7B, 0], [0x1D, 0x21, 0]])"
proof -
  have fields: "width (Feed params e) = 1 \<and> height (Feed params e) = 1 \<and>
   underline (Feed params e) = 0 \<and> emphasize (Feed params e) = 0 \<and>
   upsidedown (Feed params e) = 0 \<and> rotate_toggle (Feed params e) = 0 \<and>
   reverse (Feed params e) = 0"
    by (simp add: Feed_def Let_def sendFontSize_def sendUpsidedown_def sendUnderline_def
          sendReverse_def sendRotate_def sendEmphasize_def emit_fields reset_fields)
  define e1 where "e1 = (case params ''Line'' of
                  Some l \<Rightarrow>
                    (case Atoi l of
                       (i, None) \<Rightarrow> FormfeedN (word_of_int i) e
                     | (i, Some err) \<Rightarrow> logf Critical ''Invalid line number %s'' [S l] e)
                | None \<Rightarrow> e)"
  define e2 where "e2 = (case params ''Unit'' of
                  Some u \<Rightarrow>
                    (case Atoi u of
                       (i, None) \<Rightarrow> sendMoveY (word_of_int i) e1
                     | (i, Some err) \<Rightarrow> logf Critical ''Invalid unit number %s'' [S u] e1)
                | None \<Rightarrow> e1)"
  have feed: "Feed params e = sendFontSize (sendUpsidedown (sendUnderline (sendReverse
                (sendRotate (sendEmphasize (reset (Linefeed e2)))))))"
    unfolding Feed_def Let_def e2_def e1_def by (rule refl)
  obtain p1 where p1: "dst e1 = dst e @ p1"
    using Feed_lines unfolding e1_def by blast
  obtain p2 where p2: "dst e2 = dst e1 @ p2"
    using Feed_moves unfolding e2_def by blast
  have "dst (Feed params e) = dst e @ (p1 @ p2) @
      [[0x0A], [0x1B, 0x45, 0], [0x1B, 0x56, 0], [0x1D, 0x42, 0],
       [0x1B, 0x2D, 0], [0x1B, 0x7B, 0], [0x1D, 0x21, 0]]"
    by (simp only: feed Feed_resync p1 p2 append_assoc)
  with fields show ?thesis by blast
qed

section \<open>Text and its font parameter\<close>

text \<open>
  C10. \<^verbatim>\<open>Text\<close> is not total: whenever the \<^verbatim>\<open>Font\<close> key is present with a value
  shorter than 6 (its length in bytes, as \<^verbatim>\<open>len\<close> counts), the slice \<^verbatim>\<open>font[5:6]\<close> is
  out of range and \<^verbatim>\<open>Text\<close> ends in a panic instead of selecting a font and going on,
  whatever the other parameters, the payload and the session are.
\<close>

theorem Text_short_font_panics:
  "params ''Font'' = Some font \<Longrightarrow> length font < 6 \<Longrightarrow>
     \<exists>e1. Text ks params data e = Inl (SliceBoundsOutOfRange, e1)"
  by (simp add: Text_def Text_styles_def Let_def)

theorem Text_short_font_panics_witness:
  "[''Font'' \<mapsto> ''fontB''] ''Font'' = Some ''fontB'' \<and> length ''fontB'' < 6 \<and>
   Text textReplaceMap [''Font'' \<mapsto> ''fontB''] ''hello'' (New buffer_Write)
     = Inl (SliceBoundsOutOfRange, New buffer_Write)"
  using Text_short_font_panics [of "[''Font'' \<mapsto> ''fontB'']" "''fontB''" textReplaceMap
          "''hello''" "New buffer_Write"]
  by (simp add: Text_def Text_styles_def Let_def flag_on_def)

section \<open>The operation selector\<close>

text \<open>
  C9, as stated: with an empty selector, also when the map has no \<^verbatim>\<open>Name\<close> entry, the
  pulse opcode is written. With no \<^verbatim>\<open>Name\<close> entry \<^verbatim>\<open>WriteNode\<close> returns the session
  as it was and nothing has been written.
\<close>

theorem WriteNode_no_Name_counterexample:
  "Map.empty ''Name'' = (None :: string option) \<and>
   WriteNode textReplaceMap reject_all tie_dark Map.empty [] (New buffer_Write)
     = Inr (New buffer_Write) \<and>
   dst (New buffer_Write) = []"
  by (simp add: WriteNode_def New_def reset_def Let_def)

text \<open>
  C9, amended. When the map has \<^verbatim>\<open>Name\<close> with the empty string, \<^verbatim>\<open>WriteNode\<close> performs
  the pulse: it returns and the drawer-kick opcode \<open>1B 70 02\<close> is the one write added.
  When the map has no \<^verbatim>\<open>Name\<close> entry, \<^verbatim>\<open>WriteNode\<close> returns and writes nothing.
\<close>

theorem WriteNode_empty_Name:
  "(params ''Name'' = Some [] \<longrightarrow>
      (\<exists>e1. WriteNode ks decode fl params data e = Inr e1 \<and>
              dst e1 = dst e @ [[0x1B, 0x70, 0x02]])) \<and>
   (params ''Name'' = None \<longrightarrow>
      (\<exists>e1. WriteNode ks decode fl params data e = Inr e1 \<and> dst e1 = dst e))"
  by (simp add: WriteNode_def Let_def Pulse_def dst_emit_bytes logf_fields)

theorem WriteNode_empty_Name_witness:
  "[''Name'' \<mapsto> []] ''Name'' = Some [] \<and>
   dst (state_of (WriteNode textReplaceMap reject_all tie_dark [''Name'' \<mapsto> []] []
                    (New buffer_Write))) = [[0x1B, 0x70, 0x02]] \<and>
   Map.empty ''Name'' = (None :: string option) \<and>
   dst (state_of (WriteNode textReplaceMap reject_all tie_dark Map.empty []
                    (New buffer_Write))) = []"
  using WriteNode_empty_Name [of "[''Name'' \<mapsto> []]" textReplaceMap reject_all tie_dark "[]"
          "New buffer_Write"]
        WriteNode_empty_Name [of Map.empty textReplaceMap reject_all tie_dark "[]"
          "New buffer_Write"]
  by (auto simp: state_of_def New_def reset_def)

section \<open>The image pipeline on rectangular images\<close>

lemma rows_update_rect:
  "\<forall>row\<in>set rows. length row = w \<Longrightarrow> rows_update f w rows = Inr (map (map f) rows)"
  by (induction rows) simp_all

lemma each_pixel_rect:
  "pixels \<noteq> [] \<Longrightarrow> \<forall>row\<in>set pixels. length row = w \<Longrightarrow>
     each_pixel f pixels = Inr (map (map f) pixels)"
  by (cases pixels) (simp_all add: each_pixel_def rows_update_rect)

lemma for_each_inv:
  "(\<And>i s. i \<in> set is \<Longrightarrow> P s \<Longrightarrow> \<exists>s1. body i s = Inr s1 \<and> P s1) \<Longrightarrow> P s \<Longrightarrow>
     \<exists>s1. for_each body is s = Inr s1 \<and> P s1"
proof (induction "is" arbitrary: s)
  case Nil
  then show ?case by simp
next
  case (Cons i "is")
  from Cons.prems obtain s1 where s1: "body i s = Inr s1" "P s1" by (meson list.set_intros(1))
  have "\<exists>s2. for_each body is s1 = Inr s2 \<and> P s2"
    by (rule Cons.IH) (use Cons.prems(1) s1 in auto)
  with s1 show ?case by simp
qed

lemma getPixelValue_ok:
  "0 \<le> y \<Longrightarrow> y < int (length pixels) \<Longrightarrow> 0 \<le> x \<Longrightarrow> x < int (length (pixels ! nat y)) \<Longrightarrow>
     \<exists>v. getPixelValue x y pixels = Inr v"
  by (simp add: getPixelValue_def Let_def)

lemma pack8_ok:
  assumes "0 \<le> y" "y < int (length pixels)" "0 \<le> x" "x + 7 < int (length (pixels ! nat y))"
  shows "\<exists>b. pack8 x y pixels = Inr b"
proof -
  have "\<exists>v. getPixelValue (x + k) y pixels = Inr v" if "0 \<le> k" "k \<le> 7" for k
    using assms that by (intro getPixelValue_ok) auto
  from this [of 0] this [of 1] this [of 2] this [of 3] this [of 4] this [of 5] this [of 6] this [of 7]
  obtain v0 v1 v2 v3 v4 v5 v6 v7 where
    "getPixelValue (x + 0) y pixels = Inr v0" "getPixelValue (x + 1) y pixels = Inr v1"
    "getPixelValue (x + 2) y pixels = Inr v2" "getPixelValue (x + 3) y pixels = Inr v3"
    "getPixelValue (x + 4) y pixels = Inr v4" "getPixelValue (x + 5) y pixels = Inr v5"
    "getPixelValue (x + 6) y pixels = Inr v6" "getPixelValue (x + 7) y pixels = Inr v7"
    by auto
  then show ?thesis by (simp add: pack8_def and_then_def)
qed

lemma store_index_bound:
  fixes y a k ph :: int
  assumes "0 \<le> y" "y < ph" "0 \<le> k" "k < a"
  shows "0 \<le> y * a + k \<and> y * a + k < a * ph"
proof -
  have "y * a + k < y * a + a" using assms by simp
  also have "\<dots> = (y + 1) * a" by (simp add: algebra_simps)
  also have "\<dots> \<le> ph * a" using assms by (intro mult_right_mono) auto
  finally have "y * a + k < a * ph" by (simp add: mult.commute)
  moreover have "0 \<le> y * a + k" using assms by simp
  ultimately show ?thesis by simp
qed

lemma rasterize_ok:
  fixes a b :: nat
  assumes rows: "8 * b \<le> length pixels"
    and cols: "\<forall>row\<in>set pixels. 8 * a \<le> length row"
  shows "\<exists>bytes. rasterize (8 * int a) (8 * int b) pixels = Inr (bytes, None) \<and>
           length bytes = 8 * a * b"
proof -
  let ?pw = "8 * int a" and ?ph = "8 * int b"
  let ?N = "8 * a * b"
  have inner: "\<exists>s1. for_each (store_byte ?pw y pixels)
                  (map (\<lambda>k. 8 * int k) [0..<nat ((?pw + 7) div 8)]) s = Inr s1 \<and> length s1 = ?N"
    if y: "y \<in> set (map int [0..<nat ?ph])" and s: "length s = ?N" for y s
  proof (rule for_each_inv [where P = "\<lambda>s :: byte list. length s = ?N"])
    show "length s = ?N" by (rule s)
  next
    fix x and s' :: "byte list"
    assume x: "x \<in> set (map (\<lambda>k. 8 * int k) [0..<nat ((?pw + 7) div 8)])" and s': "length s' = ?N"
    from x obtain k where k: "x = 8 * int k" "k < a" by auto
    from y have y0: "0 \<le> y" "y < ?ph" by auto
    then have ylen: "y < int (length pixels)" using rows by linarith
    then have "pixels ! nat y \<in> set pixels" using y0 by simp
    then have "8 * a \<le> length (pixels ! nat y)" using cols by blast
    then have "x + 7 < int (length (pixels ! nat y))" using k by linarith
    then obtain bt where bt: "pack8 x y pixels = Inr bt"
      using pack8_ok [of y pixels x] y0 ylen k by auto
    have "0 \<le> y * int a + int k \<and> y * int a + int k < int a * ?ph"
      using store_index_bound [of y ?ph "int k" "int a"] y0 k by simp
    moreover have "int a * ?ph = int ?N" by simp
    moreover have "drop_bit 3 ?pw = int a" "drop_bit 3 x = int k"
      by (simp_all add: drop_bit_eq_div k)
    ultimately show "\<exists>s1. store_byte ?pw y pixels x s' = Inr s1 \<and> length s1 = ?N"
      by (simp add: store_byte_def Let_def bt s')
  qed
  have outer: "\<exists>s1. for_each (\<lambda>y. for_each (store_byte ?pw y pixels)
                  (map (\<lambda>k. 8 * int k) [0..<nat ((?pw + 7) div 8)]))
                  (map int [0..<nat ?ph]) (replicate ?N 0) = Inr s1 \<and> length s1 = ?N"
    by (rule for_each_inv [where P = "\<lambda>s :: byte list. length s = ?N"]) (use inner in auto)
  have n: "drop_bit 3 (?pw * ?ph) = int ?N"
    by (simp add: drop_bit_eq_div)
  have gm: "go_mod ?pw 8 = 0" "go_mod ?ph 8 = 0"
    by (simp_all add: go_mod_def go_div_def sgn_if)
  from outer obtain s1 where
    s1: "for_each (\<lambda>y. for_each (store_byte ?pw y pixels)
                  (map (\<lambda>k. 8 * int k) [0..<nat ((?pw + 7) div 8)]))
                  (map int [0..<nat ?ph]) (replicate ?N 0) = Inr s1"
    and len: "length s1 = ?N" by blast
  have "rasterize ?pw ?ph pixels = Inr (s1, None)"
    unfolding rasterize_def Let_def n nat_int gm s1 by (simp add: not_less)
  with len show ?thesis by blast
qed

lemma closestNDivisibleBy8_nonneg: "0 \<le> n \<Longrightarrow> closestNDivisibleBy8 n = 8 * int (nat n div 8)"
  by (simp add: closestNDivisibleBy8_def go_div_def sgn_if zdiv_int nat_div_distrib)

lemma int_and_255: "(x :: int) AND 0xFF = x mod 256"
proof -
  have "x AND mask 8 = x mod 2 ^ 8" by (simp only: take_bit_eq_mask [symmetric] take_bit_eq_mod)
  then show ?thesis by (simp add: mask_eq_exp_minus_1)
qed

lemma WriteRaw_dst: "data \<noteq> [] \<Longrightarrow> dst (fst (WriteRaw data e)) = dst e @ [data]"
  by (simp add: WriteRaw_def Let_def logf_def)

text \<open>
  C5. For a decoded image of width \<open>w\<close> and height \<open>h\<close> (a decoder gives \<open>w \<ge> 0\<close> and
  \<open>h \<ge> 1\<close>; the PNG decoder refuses non-positive dimensions), \<^verbatim>\<open>PrintImage\<close> returns
  without error and adds one write: the four opcode bytes, then \<open>w >> 3\<close> as low and high
  byte and \<open>h\<close> as low and high byte, both from the dimensions before rounding, then
  the packed bitmap, of exactly \<open>(\<lfloor>w/8\<rfloor>*8 * \<lfloor>h/8\<rfloor>*8) / 8\<close> bytes.
\<close>

theorem PrintImage_frame_dimensions:
  assumes dec: "decode imgFile = Inr img"
    and w: "0 \<le> Max_X img" and h: "1 \<le> Max_Y img"
  shows "\<exists>e1 bits.
           PrintImage decode fl imgFile e = Inr (e1, None) \<and>
           dst e1 = dst e @
             [[0x1D, 0x76, 0x30, 0x00,
               word_of_int ((Max_X img div 8) mod 256),
               word_of_int ((Max_X img div 8) div 256 mod 256),
               word_of_int (Max_Y img mod 256),
               word_of_int (Max_Y img div 256 mod 256)] @ bits] \<and>
           int (length bits) = ((Max_X img div 8 * 8) * (Max_Y img div 8 * 8)) div 8"
proof -
  define W H where "W = Max_X img" and "H = Max_Y img"
  define pixels where
    "pixels = map (\<lambda>y. map (\<lambda>x. rgbaToPixel (At img (int x) (int y))) [0..<nat W]) [0..<nat H]"
  have gp: "getPixels decode imgFile = Inr (W, H, pixels)"
    by (simp add: getPixels_def dec Let_def W_def H_def pixels_def)
  have ne: "pixels \<noteq> []" using h by (simp add: pixels_def H_def)
  have rect: "\<forall>row\<in>set pixels. length row = nat W" by (auto simp: pixels_def)
  have len: "length pixels = nat H" by (simp add: pixels_def)
  define p1 where "p1 = map (map flatten_alpha) pixels"
  define p2 where "p2 = map (map (binarize fl)) p1"
  have rt: "removeTransparency pixels = Inr p1"
    unfolding removeTransparency_def p1_def using ne rect by (rule each_pixel_rect)
  have rect1: "\<forall>row\<in>set p1. length row = nat W" using rect by (auto simp: p1_def)
  have ne1: "p1 \<noteq> []" using ne by (simp add: p1_def)
  have mg: "makeGrayscale fl p1 = Inr p2"
    unfolding makeGrayscale_def p2_def using ne1 rect1 by (rule each_pixel_rect)
  have rect2: "\<forall>row\<in>set p2. length row = nat W" using rect1 by (auto simp: p2_def)
  have len2: "length p2 = nat H" by (simp add: p2_def p1_def len)
  have cw: "closestNDivisibleBy8 W = 8 * int (nat W div 8)"
    using w by (simp add: closestNDivisibleBy8_nonneg W_def)
  have ch: "closestNDivisibleBy8 H = 8 * int (nat H div 8)"
    using h by (simp add: closestNDivisibleBy8_nonneg H_def)
  have "8 * (nat H div 8) \<le> length p2" by (simp add: len2)
  moreover have "\<forall>row\<in>set p2. 8 * (nat W div 8) \<le> length row" using rect2 by simp
  ultimately obtain bits where
    ras: "rasterize (8 * int (nat W div 8)) (8 * int (nat H div 8)) p2 = Inr (bits, None)"
    and bl: "length bits = 8 * (nat W div 8) * (nat H div 8)"
    using rasterize_ok [of "nat H div 8" p2 "nat W div 8"] by blast
  let ?hdr = "[0x1D, 0x76, 0x30, 0x00,
               word_of_int ((W div 8) mod 256), word_of_int ((W div 8) div 256 mod 256),
               word_of_int (H mod 256), word_of_int (H div 256 mod 256)] :: byte list"
  have pi: "PrintImage decode fl imgFile e = Inr (fst (WriteRaw (?hdr @ bits) e), None)"
    by (simp add: PrintImage_def gp rt mg cw ch ras Let_def int_and_255 drop_bit_eq_div)
  have d: "dst (fst (WriteRaw (?hdr @ bits) e)) = dst e @ [?hdr @ bits]"
    by (rule WriteRaw_dst) simp
  have "int (length bits) = ((W div 8 * 8) * (H div 8 * 8)) div 8"
    using w h by (simp add: bl W_def H_def zdiv_int)
  with pi d show ?thesis unfolding W_def H_def by blast
qed

theorem PrintImage_frame_dimensions_witness:
  "decode_only ''iVBORw0KGgo='' (plain_image 20 10 0) ''iVBORw0KGgo='' = Inr (plain_image 20 10 0) \<and>
   0 \<le> Max_X (plain_image 20 10 0) \<and> 1 \<le> Max_Y (plain_image 20 10 0) \<and>
   (\<exists>e1 bits.
      PrintImage (decode_only ''iVBORw0KGgo='' (plain_image 20 10 0)) tie_dark ''iVBORw0KGgo=''
        (New buffer_Write) = Inr (e1, None) \<and>
      dst e1 = [[0x1D, 0x76, 0x30, 0x00, 2, 0, 10, 0] @ bits] \<and> length bits = 16)"
proof -
  have h1: "decode_only ''iVBORw0KGgo='' (plain_image 20 10 0) ''iVBORw0KGgo=''
              = Inr (plain_image 20 10 0)"
    by (simp add: decode_only_def)
  have h2: "0 \<le> Max_X (plain_image 20 10 0)" by (simp add: plain_image_def)
  have h3: "1 \<le> Max_Y (plain_image 20 10 0)" by (simp add: plain_image_def)
  show ?thesis
    using PrintImage_frame_dimensions [of "decode_only ''iVBORw0KGgo='' (plain_image 20 10 0)"
            "''iVBORw0KGgo=''" "plain_image 20 10 0" tie_dark "New buffer_Write"] h1 h2 h3
    by (simp add: plain_image_def New_def reset_def)
qed


section \<open>Black and white\<close>

lemma each_pixel_plain:
  "0 < n \<Longrightarrow> each_pixel f (replicate n (replicate m p)) = Inr (replicate n (replicate m (f p)))"
  using each_pixel_rect [of "replicate n (replicate m p)" m f] by simp

lemma flatten_black: "flatten_alpha black_px = black_px"
  by (simp add: flatten_alpha_def black_px_def go_div_def Let_def)

lemma flatten_white: "flatten_alpha white_px = white_px"
  by (simp add: flatten_alpha_def white_px_def go_div_def Let_def)

lemma binarize_black: "binarize fl black_px = black_px"
  by (simp add: binarize_def luminance_lt_128_def black_px_def Let_def)

lemma binarize_white: "binarize fl white_px = white_px"
  by (simp add: binarize_def luminance_lt_128_def white_px_def Let_def)

lemma rgbaToPixel_black_white:
  "rgbaToPixel (0, 0, 0, 0xFFFF) = black_px"
  "rgbaToPixel (0xFFFF, 0xFFFF, 0xFFFF, 0xFFFF) = white_px"
  by (simp_all add: rgbaToPixel_def black_px_def white_px_def drop_bit_eq_div)

lemma rasterize_black_16:
  "rasterize 16 16 (replicate 16 (replicate 16 black_px)) = Inr (replicate 32 0xFF, None)"
  by code_simp

lemma rasterize_white_16:
  "rasterize 16 16 (replicate 16 (replicate 16 white_px)) = Inr (replicate 32 0x00, None)"
  by code_simp

lemma pack8_msb_first:
  "pack8 0 0 [[black_px, white_px, white_px, white_px, white_px, white_px, white_px, white_px]]
     = Inr 0x80"
  by code_simp

text \<open>
  C6. Flatten alpha, binarize, bit-pack: a 16 by 16 opaque black image gives 32 bytes,
  all \<open>FF\<close>; a 16 by 16 opaque white image gives 32 bytes, all \<open>00\<close>, whatever the
  rounding of the luminance does elsewhere. A byte packs 8 horizontal pixels, the
  leftmost in the most significant bit, and a black pixel is the bit 1: a black pixel
  followed by seven white ones is \<open>80\<close>.
\<close>

theorem pipeline_16x16:
  "and_then (removeTransparency (replicate 16 (replicate 16 black_px)))
      (\<lambda>p1. and_then (makeGrayscale fl p1) (rasterize 16 16))
     = Inr (replicate 32 0xFF, None) \<and>
   and_then (removeTransparency (replicate 16 (replicate 16 white_px)))
      (\<lambda>p1. and_then (makeGrayscale fl p1) (rasterize 16 16))
     = Inr (replicate 32 0x00, None) \<and>
   pack8 0 0 [[black_px, white_px, white_px, white_px, white_px, white_px, white_px, white_px]]
     = Inr 0x80"
  by (simp only: removeTransparency_def makeGrayscale_def each_pixel_plain flatten_black
        flatten_white binarize_black binarize_white and_then_def sum.case
        rasterize_black_16 rasterize_white_16 pack8_msb_first zero_less_numeral simp_thms)

section \<open>Image and its size parameters\<close>

lemma WriteRaw_extends:
  "\<exists>ml md. beelog (fst (WriteRaw d e)) = beelog e @ ml \<and> dst (fst (WriteRaw d e)) = dst e @ md"
  by (simp add: WriteRaw_def Let_def logf_def)

lemma PrintImage_cases:
  "(\<exists>p. PrintImage decode fl s e = Inl (p, e)) \<or>
   (\<exists>err. PrintImage decode fl s e = Inr (e, Some err)) \<or>
   (\<exists>d. PrintImage decode fl s e = Inr (fst (WriteRaw d e), None))"
  by (auto simp: PrintImage_def Let_def split: sum.splits prod.splits)

lemma PrintImage_extends:
  "\<exists>ml md.
     beelog (state_of (case PrintImage decode fl s e of
                         Inl pe \<Rightarrow> Inl pe | Inr (e7, dropped) \<Rightarrow> Inr e7)) = beelog e @ ml \<and>
     dst (state_of (case PrintImage decode fl s e of
                      Inl pe \<Rightarrow> Inl pe | Inr (e7, dropped) \<Rightarrow> Inr e7)) = dst e @ md"
  using PrintImage_cases [of decode fl s e] WriteRaw_extends
  by (auto simp: state_of_def)

lemma SetAlign_extends:
  "\<exists>a ml. dst (SetAlign al e) = dst e @ [[0x1B, 0x61, a]] \<and>
           beelog (SetAlign al e) = beelog e @ ml"
proof -
  have *: "\<exists>ml. dst (emit (string_of_bytes [0x1B, 0x61, a]) e1) = dst e1 @ [[0x1B, 0x61, a]] \<and>
            beelog (emit (string_of_bytes [0x1B, 0x61, a]) e1) = beelog e1 @ ml" for a e1
    using beelog_emit [of "string_of_bytes [0x1B, 0x61, a]" e1] by (simp add: dst_emit_bytes)
  show ?thesis
    using * [of 0 e] * [of 1 e] * [of 2 e] * [of 0 "logf Warn ''Invalid alignment: %s'' [S al] e"]
    by (auto simp: SetAlign_def logf_fields)
qed

lemma PrintImage_on_decode_error:
  "decode imgFile = Inl err \<Longrightarrow> PrintImage decode fl imgFile e = Inr (e, Some err)"
  by (simp add: PrintImage_def getPixels_def)

lemma dst_SetAlign:
  "dst (SetAlign al e) =
     dst e @ [[0x1B, 0x61, if al = ''center'' then 1 else if al = ''right'' then 2 else 0]]"
  by (simp add: SetAlign_def dst_emit_bytes logf_fields)

lemma Image_op_steps:
  assumes "e1 = (case params ''Align'' of Some al \<Rightarrow> SetAlign al e | None \<Rightarrow> e)"
    and "ws = (case params ''Width'' of Some s \<Rightarrow> s | None \<Rightarrow> [])"
    and "hs = (case params ''Height'' of Some s \<Rightarrow> s | None \<Rightarrow> [])"
    and "c1 = (if params ''Width'' = None
               then [(Critical, ''No width specified on image'', [] :: arg list)] else [])"
    and "c2 = (if params ''Height'' = None
               then [(Critical, ''No height specified on image'', [] :: arg list)] else [])"
    and "c3 = (if snd (Atoi ws) \<noteq> None
               then [(Critical, ''Invalid image width %s'', [S ws])] else [])"
    and "c4 = (if snd (Atoi hs) \<noteq> None
               then [(Critical, ''Invalid image height %s'', [S hs])] else [])"
  shows "\<exists>c5. Image_op decode fl params data e =
           (case PrintImage decode fl data (e1\<lparr>beelog := beelog e1 @ c1 @ c2 @ c3 @ c4 @ c5\<rparr>) of
              Inl pe \<Rightarrow> Inl pe | Inr (e7, dropped) \<Rightarrow> Inr e7)"
proof -
  define c5 where "c5 = (if Verbose e1
                then [(Debug, ''Image len:%d w: %d h: %d'' @ [CHR 0x0A],
                       [I (int (length data)), I (fst (Atoi ws)), I (fst (Atoi hs))])]
                else [])"
  have "Image_op decode fl params data e =
           (case PrintImage decode fl data (e1\<lparr>beelog := beelog e1 @ c1 @ c2 @ c3 @ c4 @ c5\<rparr>) of
              Inl pe \<Rightarrow> Inl pe | Inr (e7, dropped) \<Rightarrow> Inr e7)"
    unfolding Image_op_def Let_def c5_def assms
    by (cases "params ''Width''"; cases "params ''Height''")
       (simp_all add: case_prod_beta logf_def)
  then show ?thesis by (rule exI)
qed


text \<open>
  C1, as stated: with \<^verbatim>\<open>Width\<close> or \<^verbatim>\<open>Height\<close> missing or unparsable, no byte reaches
  the sink. Here \<^verbatim>\<open>Width\<close> and \<^verbatim>\<open>Height\<close> are missing and \<^verbatim>\<open>Align\<close> is present: the
  alignment opcode is written before the size parameters are looked at.
\<close>

theorem Image_missing_Width_counterexample:
  "[''Align'' \<mapsto> ''center''] ''Width'' = None \<and>
   dst (New buffer_Write) = [] \<and>
   dst (state_of (Image_op reject_all tie_dark [''Align'' \<mapsto> ''center''] ''not base64!''
                    (New buffer_Write))) = [[0x1B, 0x61, 1]]"
  by (simp add: Image_op_def Let_def SetAlign_def emit_bytes logf_def New_def reset_def
        PrintImage_def getPixels_def reject_all_def state_of_def Atoi_def)

text \<open>
  \<^verbatim>\<open>Image\<close> goes on to \<^verbatim>\<open>PrintImage\<close> after logging: with no parameter at all and a
  payload that decodes to an 8 by 8 black image, the frame is written.
\<close>

lemma Image_without_size_example:
  "dst (state_of (Image_op (decode_only ''iVBORw0KGgo='' (plain_image 8 8 0)) tie_dark Map.empty
                    ''iVBORw0KGgo='' (New buffer_Write)))
     = [[0x1D, 0x76, 0x30, 0x00, 1, 0, 8, 0, 0xFF, 0xFF, 0xFF, 0xFF, 0xFF, 0xFF, 0xFF, 0xFF]]"
  by code_simp

text \<open>
  C1, amended. \<^verbatim>\<open>Image\<close> reports a parameter error for each size parameter that is
  missing or does not parse as an integer, with a Critical line about that parameter:
  "No width specified on image" when \<^verbatim>\<open>Width\<close> is missing, "No height specified on
  image" when \<^verbatim>\<open>Height\<close> is missing, "Invalid image width %s" with the value when the
  value of \<^verbatim>\<open>Width\<close> does not parse, "Invalid image height %s" with the value when the
  value of \<^verbatim>\<open>Height\<close> does not parse. The sink is not left untouched: when \<^verbatim>\<open>Align\<close>
  is present, the alignment opcode \<open>1B 61 a\<close>, with \<open>a\<close> the index of the name, is the
  first write added.
\<close>

theorem Image_reports_parameter_error:
  "(params ''Width'' = None \<longrightarrow>
      (\<exists>before more. beelog (state_of (Image_op decode fl params data e)) =
         beelog e @ before @ (Critical, ''No width specified on image'', []) # more)) \<and>
   (params ''Height'' = None \<longrightarrow>
      (\<exists>before more. beelog (state_of (Image_op decode fl params data e)) =
         beelog e @ before @ (Critical, ''No height specified on image'', []) # more)) \<and>
   (\<forall>s. params ''Width'' = Some s \<and> snd (Atoi s) \<noteq> None \<longrightarrow>
      (\<exists>before more. beelog (state_of (Image_op decode fl params data e)) =
         beelog e @ before @ (Critical, ''Invalid image width %s'', [S s]) # more)) \<and>
   (\<forall>s. params ''Height'' = Some s \<and> snd (Atoi s) \<noteq> None \<longrightarrow>
      (\<exists>before more. beelog (state_of (Image_op decode fl params data e)) =
         beelog e @ before @ (Critical, ''Invalid image height %s'', [S s]) # more)) \<and>
   (\<forall>al. params ''Align'' = Some al \<longrightarrow>
      (\<exists>more. dst (state_of (Image_op decode fl params data e)) =
         dst e @ [0x1B, 0x61, if al = ''center'' then 1 else if al = ''right'' then 2 else 0]
               # more))"
proof -
  define e1 where "e1 = (case params ''Align'' of Some al \<Rightarrow> SetAlign al e | None \<Rightarrow> e)"
  define ws where "ws = (case params ''Width'' of Some s \<Rightarrow> s | None \<Rightarrow> [])"
  define hs where "hs = (case params ''Height'' of Some s \<Rightarrow> s | None \<Rightarrow> [])"
  define c1 where "c1 = (if params ''Width'' = None
                         then [(Critical, ''No width specified on image'', [] :: arg list)] else [])"
  define c2 where "c2 = (if params ''Height'' = None
                         then [(Critical, ''No height specified on image'', [] :: arg list)] else [])"
  define c3 where "c3 = (if snd (Atoi ws) \<noteq> None
                         then [(Critical, ''Invalid image width %s'', [S ws])] else [])"
  define c4 where "c4 = (if snd (Atoi hs) \<noteq> None
                         then [(Critical, ''Invalid image height %s'', [S hs])] else [])"
  obtain c5 where img: "Image_op decode fl params data e =
           (case PrintImage decode fl data (e1\<lparr>beelog := beelog e1 @ c1 @ c2 @ c3 @ c4 @ c5\<rparr>) of
              Inl pe \<Rightarrow> Inl pe | Inr (e7, dropped) \<Rightarrow> Inr e7)"
    using Image_op_steps [OF e1_def ws_def hs_def c1_def c2_def c3_def c4_def,
            where decode = decode and fl = fl and data = data]
    by (elim exE)
  define e6 where "e6 = e1\<lparr>beelog := beelog e1 @ c1 @ c2 @ c3 @ c4 @ c5\<rparr>"
  obtain ml md where
    st: "beelog (state_of (Image_op decode fl params data e)) = beelog e6 @ ml"
        "dst (state_of (Image_op decode fl params data e)) = dst e6 @ md"
    using PrintImage_extends [of decode fl data e6] unfolding img e6_def by (elim exE conjE)
  have "\<exists>pre. beelog e1 = beelog e @ pre"
  proof (cases "params ''Align''")
    case None
    then show ?thesis by (simp add: e1_def)
  next
    case (Some al)
    then show ?thesis using SetAlign_extends [of al e] by (auto simp: e1_def)
  qed
  then obtain pre where pre: "beelog e1 = beelog e @ pre" by (elim exE)
  have full: "beelog (state_of (Image_op decode fl params data e)) =
                beelog e @ pre @ c1 @ c2 @ c3 @ c4 @ c5 @ ml"
    by (simp add: st(1) e6_def pre)
  have p1: "\<exists>before more. beelog (state_of (Image_op decode fl params data e)) =
         beelog e @ before @ (Critical, ''No width specified on image'', []) # more"
    if "params ''Width'' = None"
  proof -
    from that have "c1 = [(Critical, ''No width specified on image'', [])]" by (simp add: c1_def)
    with full have "beelog (state_of (Image_op decode fl params data e)) =
         beelog e @ pre @ (Critical, ''No width specified on image'', []) # (c2 @ c3 @ c4 @ c5 @ ml)"
      by simp
    then show ?thesis by (intro exI)
  qed
  have p2: "\<exists>before more. beelog (state_of (Image_op decode fl params data e)) =
         beelog e @ before @ (Critical, ''No height specified on image'', []) # more"
    if "params ''Height'' = None"
  proof -
    from that have "c2 = [(Critical, ''No height specified on image'', [])]" by (simp add: c2_def)
    with full have "beelog (state_of (Image_op decode fl params data e)) =
         beelog e @ (pre @ c1) @ (Critical, ''No height specified on image'', []) # (c3 @ c4 @ c5 @ ml)"
      by simp
    then show ?thesis by (intro exI)
  qed
  have p3: "\<exists>before more. beelog (state_of (Image_op decode fl params data e)) =
         beelog e @ before @ (Critical, ''Invalid image width %s'', [S s]) # more"
    if "params ''Width'' = Some s \<and> snd (Atoi s) \<noteq> None" for s
  proof -
    from that have "c3 = [(Critical, ''Invalid image width %s'', [S s])]"
      by (simp add: c3_def ws_def)
    with full have "beelog (state_of (Image_op decode fl params data e)) =
         beelog e @ (pre @ c1 @ c2) @ (Critical, ''Invalid image width %s'', [S s]) # (c4 @ c5 @ ml)"
      by simp
    then show ?thesis by (intro exI)
  qed
  have p4: "\<exists>before more. beelog (state_of (Image_op decode fl params data e)) =
         beelog e @ before @ (Critical, ''Invalid image height %s'', [S s]) # more"
    if "params ''Height'' = Some s \<and> snd (Atoi s) \<noteq> None" for s
  proof -
    from that have "c4 = [(Critical, ''Invalid image height %s'', [S s])]"
      by (simp add: c4_def hs_def)
    with full have "beelog (state_of (Image_op decode fl params data e)) =
         beelog e @ (pre @ c1 @ c2 @ c3) @ (Critical, ''Invalid image height %s'', [S s]) # (c5 @ ml)"
      by simp
    then show ?thesis by (intro exI)
  qed
  have p5: "\<exists>more. dst (state_of (Image_op decode fl params data e)) =
         dst e @ [0x1B, 0x61, if al = ''center'' then 1 else if al = ''right'' then 2 else 0]
               # more"
    if al: "params ''Align'' = Some al" for al
  proof -
    have "dst e1 = dst e @ [[0x1B, 0x61, if al = ''center'' then 1 else if al = ''right'' then 2 else 0]]"
      unfolding e1_def al by (simp only: option.case dst_SetAlign)
    then have "dst (state_of (Image_op decode fl params data e)) =
         dst e @ [0x1B, 0x61, if al = ''center'' then 1 else if al = ''right'' then 2 else 0] # md"
      unfolding st(2) by (simp add: e6_def)
    then show ?thesis by (intro exI)
  qed
  from p1 p2 p3 p4 p5 show ?thesis by (intro conjI allI impI)
qed

theorem Image_reports_parameter_error_witness:
  "[''Align'' \<mapsto> ''left''] ''Width'' = None \<and>
   [''Align'' \<mapsto> ''left''] ''Height'' = None \<and>
   [''Align'' \<mapsto> ''left''] ''Align'' = Some ''left'' \<and>
   beelog (state_of (Image_op reject_all tie_dark [''Align'' \<mapsto> ''left''] ''not base64!''
                       (New buffer_Write))) =
     [(Critical, ''No width specified on image'', []),
      (Critical, ''No height specified on image'', []),
      (Critical, ''Invalid image width %s'', [S []]),
      (Critical, ''Invalid image height %s'', [S []])] \<and>
   dst (state_of (Image_op reject_all tie_dark [''Align'' \<mapsto> ''left''] ''not base64!''
                    (New buffer_Write))) = [[0x1B, 0x61, 0]] \<and>
   [''Width'' \<mapsto> ''12x'', ''Height'' \<mapsto> ''tall''] ''Width'' = Some ''12x'' \<and>
   snd (Atoi ''12x'') \<noteq> None \<and>
   [''Width'' \<mapsto> ''12x'', ''Height'' \<mapsto> ''tall''] ''Height'' = Some ''tall'' \<and>
   snd (Atoi ''tall'') \<noteq> None \<and>
   beelog (state_of (Image_op reject_all tie_dark [''Width'' \<mapsto> ''12x'', ''Height'' \<mapsto> ''tall'']
                       ''not base64!'' (New buffer_Write))) =
     [(Critical, ''Invalid image width %s'', [S ''12x'']),
      (Critical, ''Invalid image height %s'', [S ''tall''])]"
  using Image_reports_parameter_error
          [of "[''Align'' \<mapsto> ''left'']" reject_all tie_dark "''not base64!''" "New buffer_Write"]
        Image_reports_parameter_error
          [of "[''Width'' \<mapsto> ''12x'', ''Height'' \<mapsto> ''tall'']" reject_all tie_dark
              "''not base64!''" "New buffer_Write"]
  by (simp add: Image_op_def Let_def SetAlign_def emit_bytes logf_def New_def reset_def
        PrintImage_def getPixels_def reject_all_def state_of_def Atoi_def is_digit_def)


section \<open>Decoding failures\<close>

text \<open>
  C3, as stated: when the payload of an \<^verbatim>\<open>Image\<close> operation does not decode, no byte
  reaches the sink and the decode error is surfaced to the caller. Here the sizes are
  valid, \<^verbatim>\<open>Align\<close> is present and the payload does not decode: \<^verbatim>\<open>Image\<close> returns
  normally, the alignment opcode has been written and nothing has been logged.
\<close>

theorem Image_decode_error_counterexample:
  "reject_all ''not base64!'' = Inl (External ''image: unknown format'') \<and>
   Image_op reject_all tie_dark [''Width'' \<mapsto> ''8'', ''Height'' \<mapsto> ''8'', ''Align'' \<mapsto> ''center'']
       ''not base64!'' (New buffer_Write)
     = Inr ((New buffer_Write)\<lparr>dst := [[0x1B, 0x61, 1]]\<rparr>) \<and>
   dst (New buffer_Write) = [] \<and> beelog (New buffer_Write) = []"
  by (simp add: Image_op_def Let_def SetAlign_def emit_bytes logf_def New_def reset_def
        PrintImage_def getPixels_def reject_all_def Atoi_def is_digit_def)

text \<open>
  C3, amended. When decoding the payload fails (bad base64, or not a supported image:
  the decoder over the base64 reader returns an error), \<^verbatim>\<open>PrintImage\<close> writes nothing,
  logs nothing and returns the decoder's error to its caller: the session comes back
  as it was. The \<^verbatim>\<open>Image\<close> operation, which has no result, then returns normally
  without the raster frame: the only write it adds is the alignment opcode, when
  \<^verbatim>\<open>Align\<close> is present.
\<close>

theorem Image_decode_error:
  assumes dec: "decode data = Inl err"
  shows "PrintImage decode fl data e = Inr (e, Some err) \<and>
         (\<exists>e1. Image_op decode fl params data e = Inr e1 \<and>
                dst e1 = dst e @
                  (case params ''Align'' of
                     None \<Rightarrow> []
                   | Some al \<Rightarrow>
                       [[0x1B, 0x61,
                         if al = ''center'' then 1 else if al = ''right'' then 2 else 0]]))"
proof -
  define e1 where "e1 = (case params ''Align'' of Some al \<Rightarrow> SetAlign al e | None \<Rightarrow> e)"
  define ws where "ws = (case params ''Width'' of Some s \<Rightarrow> s | None \<Rightarrow> [])"
  define hs where "hs = (case params ''Height'' of Some s \<Rightarrow> s | None \<Rightarrow> [])"
  define c1 where "c1 = (if params ''Width'' = None
                         then [(Critical, ''No width specified on image'', [] :: arg list)] else [])"
  define c2 where "c2 = (if params ''Height'' = None
                         then [(Critical, ''No height specified on image'', [] :: arg list)] else [])"
  define c3 where "c3 = (if snd (Atoi ws) \<noteq> None
                         then [(Critical, ''Invalid image width %s'', [S ws])] else [])"
  define c4 where "c4 = (if snd (Atoi hs) \<noteq> None
                         then [(Critical, ''Invalid image height %s'', [S hs])] else [])"
  obtain c5 where img: "Image_op decode fl params data e =
           (case PrintImage decode fl data (e1\<lparr>beelog := beelog e1 @ c1 @ c2 @ c3 @ c4 @ c5\<rparr>) of
              Inl pe \<Rightarrow> Inl pe | Inr (e7, dropped) \<Rightarrow> Inr e7)"
    using Image_op_steps [OF e1_def ws_def hs_def c1_def c2_def c3_def c4_def,
            where decode = decode and fl = fl and data = data]
    by (elim exE)
  have d1: "dst e1 = dst e @
                  (case params ''Align'' of
                     None \<Rightarrow> []
                   | Some al \<Rightarrow>
                       [[0x1B, 0x61,
                         if al = ''center'' then 1 else if al = ''right'' then 2 else 0]])"
    unfolding e1_def by (cases "params ''Align''") (simp_all only: option.case dst_SetAlign append_Nil2)
  have pi: "PrintImage decode fl data e0 = Inr (e0, Some err)" for e0
    using dec by (rule PrintImage_on_decode_error)
  have "\<exists>e2. Image_op decode fl params data e = Inr e2 \<and> dst e2 = dst e1"
    unfolding img by (simp add: pi)
  with d1 have "\<exists>e2. Image_op decode fl params data e = Inr e2 \<and>
                dst e2 = dst e @
                  (case params ''Align'' of
                     None \<Rightarrow> []
                   | Some al \<Rightarrow>
                       [[0x1B, 0x61,
                         if al = ''center'' then 1 else if al = ''right'' then 2 else 0]])"
    by simp
  with pi [of e] show ?thesis by (rule conjI)
qed


theorem Image_decode_error_witness:
  "reject_all ''not base64!'' = Inl (External ''image: unknown format'') \<and>
   PrintImage reject_all tie_dark ''not base64!'' (New buffer_Write)
     = Inr (New buffer_Write, Some (External ''image: unknown format'')) \<and>
   dst (New buffer_Write) = [] \<and>
   dst (state_of (Image_op reject_all tie_dark
                    [''Width'' \<mapsto> ''16'', ''Height'' \<mapsto> ''16'', ''Align'' \<mapsto> ''right'']
                    ''not base64!'' (New buffer_Write))) = [[0x1B, 0x61, 2]] \<and>
   dst (state_of (Image_op reject_all tie_dark [''Width'' \<mapsto> ''16'', ''Height'' \<mapsto> ''16'']
                    ''not base64!'' (New buffer_Write))) = []"
  using Image_decode_error
          [where decode = reject_all and data = "''not base64!''"
             and err = "External ''image: unknown format''" and fl = tie_dark
             and e = "New buffer_Write"
             and params = "[''Width'' \<mapsto> ''16'', ''Height'' \<mapsto> ''16'', ''Align'' \<mapsto> ''right'']"]
        Image_decode_error
          [where decode = reject_all and data = "''not base64!''"
             and err = "External ''image: unknown format''" and fl = tie_dark
             and e = "New buffer_Write"
             and params = "[''Width'' \<mapsto> ''16'', ''Height'' \<mapsto> ''16'']"]
  by (auto simp: reject_all_def New_def reset_def state_of_def)


end
